theory Spec2Isabelle
  imports Complex_Main
begin

unbundle bit_operations_syntax

section \<open>Values shared by the entity classes\<close>

text \<open>
  The entity classes of \<^verbatim>\<open>packages/data-model/src/entity\<close> are embedded class by class:
  the private fields of a class are the fields of a record (the field \<^verbatim>\<open>_width\<close> of the
  source is the record field \<open>width\<close>, and the trivial getter \<^verbatim>\<open>get width()\<close> is the
  record selector), a setter or method that mutates \<^verbatim>\<open>this\<close> takes the entity and returns
  the updated entity, and a \<^verbatim>\<open>throw\<close> is the \<open>Inl\<close> branch of a sum.
  A JavaScript \<^verbatim>\<open>number\<close> that holds a coordinate, a length or an angle is a \<open>real\<close>;
  one that holds an index or a bit mask is an \<open>int\<close>.
\<close>

datatype AcGePoint2d = AcGePoint2d (x2: real) (y2: real)

datatype AcGePoint3d = AcGePoint3d (x3: real) (y3: real) (z3: real)

text \<open>\<^verbatim>\<open>new AcGePoint3d()\<close>: the origin.\<close>

definition AcGePoint3d_origin :: AcGePoint3d where
  "AcGePoint3d_origin = AcGePoint3d 0 0 0"

text \<open>
  The colour and transparency classes come from \<^verbatim>\<open>@mlightcad/common\<close>. The entity code
  reads three things of a colour: \<^verbatim>\<open>isByLayer\<close>, \<^verbatim>\<open>isByBlock\<close> and \<^verbatim>\<open>RGB\<close>
  (a number, or null/undefined).
\<close>

record AcCmColor =
  isByLayer :: bool
  isByBlock :: bool
  RGB :: "nat option"

datatype AcCmTransparency = AcCmTransparency (transparencyMethod: nat) (alpha: nat)

type_synonym AcGiLineWeight = int

section \<open>The drawing database, as the entities consume it\<close>

text \<open>
  Modelled from the spec: the database classes are not under \<^verbatim>\<open>src/\<close>. The entity code
  reads \<^verbatim>\<open>database.cecolor\<close>, \<^verbatim>\<open>database.tables.layerTable.getAt(name)\<close> (a layer record
  with \<^verbatim>\<open>color\<close> and \<^verbatim>\<open>linetype\<close>, or nothing) and
  \<^verbatim>\<open>database.tables.linetypeTable.getAt(name)\<close> (a linetype record with \<^verbatim>\<open>linetype\<close>, or
  nothing). A table is a map from names to records.
\<close>

record AcGiBaseLineStyle =
  name :: string
  standardFlag :: int
  description :: string
  totalPatternLength :: real

record AcGiLineStyle = AcGiBaseLineStyle +
  type :: string

record AcDbLayerTableRecord =
  color :: AcCmColor
  linetype :: string

record AcDbLinetypeTableRecord =
  linetype :: AcGiBaseLineStyle

record AcDbDatabase =
  cecolor :: AcCmColor
  layerTable :: "string \<rightharpoonup> AcDbLayerTableRecord"
  linetypeTable :: "string \<rightharpoonup> AcDbLinetypeTableRecord"

section \<open>AcDbEntity: the fields of the base class\<close>

record AcDbEntity =
  objectId :: string
  layer :: string
  color :: AcCmColor
  lineType :: string
  lineWeight :: AcGiLineWeight
  linetypeScale :: real
  visibility :: bool
  transparency :: AcCmTransparency

text \<open>
  Modelled from the spec: the constants \<^verbatim>\<open>ByLayer\<close>, \<^verbatim>\<open>ByBlock\<close> and
  \<^verbatim>\<open>DEFAULT_LINE_TYPE\<close> of \<^verbatim>\<open>../misc\<close>, the enum value \<^verbatim>\<open>AcGiLineWeight.ByLayer\<close>
  and the values built by \<^verbatim>\<open>new AcCmColor()\<close> and \<^verbatim>\<open>new AcCmTransparency()\<close> are not
  under \<^verbatim>\<open>src/\<close>. The spec gives the defaults of an entity as layer "0", colour
  ByLayer, linetype ByLayer, line weight ByLayer, linetype scale -1, visible, opaque.
\<close>

definition ByLayer :: string where
  "ByLayer = ''ByLayer''"

definition ByBlock :: string where
  "ByBlock = ''ByBlock''"

definition DEFAULT_LINE_TYPE :: string where
  "DEFAULT_LINE_TYPE = ''Continuous''"

definition AcGiLineWeight_ByLayer :: AcGiLineWeight where
  "AcGiLineWeight_ByLayer = - 1"

definition AcCmColor_new :: AcCmColor where
  "AcCmColor_new = \<lparr>isByLayer = True, isByBlock = False, RGB = None\<rparr>"

definition AcCmTransparency_new :: AcCmTransparency where
  "AcCmTransparency_new = AcCmTransparency 0 255"

text \<open>
  The field initialisers of \<^verbatim>\<open>AcDbEntity\<close>. The object id is given by the base class
  \<^verbatim>\<open>AcDbObject\<close>; here it is the argument.
\<close>

definition AcDbEntity_new :: "string \<Rightarrow> AcDbEntity" where
  "AcDbEntity_new oid =
     \<lparr>objectId = oid, layer = ''0'', color = AcCmColor_new, lineType = ByLayer,
      lineWeight = AcGiLineWeight_ByLayer, linetypeScale = - 1, visibility = True,
      transparency = AcCmTransparency_new\<rparr>"

section \<open>AcDbEntity: style resolution\<close>

text \<open>
  \<^verbatim>\<open>getLayerColor\<close>: the colour of the entity's layer, or null (after logging) when the
  layer is not in the layer table.
\<close>

definition getLayerColor :: "AcDbDatabase \<Rightarrow> 'a AcDbEntity_scheme \<Rightarrow> AcCmColor option" where
  "getLayerColor database this =
     (case layerTable database (layer this) of
        None \<Rightarrow> None
      | Some layer' \<Rightarrow> Some (AcDbLayerTableRecord.color layer'))"

text \<open>\<^verbatim>\<open>get rgbColor()\<close>.\<close>

definition rgbColor :: "AcDbDatabase \<Rightarrow> 'a AcDbEntity_scheme \<Rightarrow> nat" where
  "rgbColor database this =
     (let color0 = cecolor database;
          color1 =
            (if isByLayer (AcDbEntity.color this) then
               (case getLayerColor database this of
                  Some layerColor \<Rightarrow> if RGB layerColor \<noteq> None then layerColor else color0
                | None \<Rightarrow> color0)
             else if isByBlock (AcDbEntity.color this) then color0
             else if RGB (AcDbEntity.color this) \<noteq> None then AcDbEntity.color this
             else color0);
          rgb = RGB color1
      in case rgb of Some v \<Rightarrow> v | None \<Rightarrow> 0xffffff)"

text \<open>
  \<^verbatim>\<open>getLineType\<close>: the pair of \<^verbatim>\<open>type\<close> and \<^verbatim>\<open>name\<close>. The test
  \<^verbatim>\<open>layer && layer.linetype\<close> fails for a missing layer and for an empty linetype name;
  the function then falls through to its last \<^verbatim>\<open>return\<close>.
\<close>

definition getLineType :: "AcDbDatabase \<Rightarrow> 'a AcDbEntity_scheme \<Rightarrow> string \<times> string" where
  "getLineType database this =
     (if lineType this = ByLayer then
        (case layerTable database (layer this) of
           Some layer' \<Rightarrow>
             if AcDbLayerTableRecord.linetype layer' \<noteq> []
             then (''ByLayer'', AcDbLayerTableRecord.linetype layer')
             else (''UserSpecified'', DEFAULT_LINE_TYPE)
         | None \<Rightarrow> (''UserSpecified'', DEFAULT_LINE_TYPE))
      else if lineType this = ByBlock then (''ByBlock'', DEFAULT_LINE_TYPE)
      else (''UserSpecified'', lineType this))"

text \<open>\<^verbatim>\<open>get lineStyle()\<close>.\<close>

definition lineStyle :: "AcDbDatabase \<Rightarrow> 'a AcDbEntity_scheme \<Rightarrow> AcGiLineStyle" where
  "lineStyle database this =
     (case getLineType database this of
        (type', name') \<Rightarrow>
          (case linetypeTable database name' of
             Some lineTypeRecord \<Rightarrow>
               AcGiBaseLineStyle.extend (AcDbLinetypeTableRecord.linetype lineTypeRecord)
                 (AcGiLineStyle.fields type')
           | None \<Rightarrow>
               \<lparr>name = name', standardFlag = 0, description = [], totalPatternLength = 0,
                type = type'\<rparr>))"

text \<open>
  \<^verbatim>\<open>attachToEntityTraits\<close> writes the resolved style onto the renderer's sub-entity traits;
  the model returns the traits written.
\<close>

record AcGiSubEntityTraits =
  traits_rgbColor :: nat
  traits_color :: AcCmColor
  traits_lineTypeScale :: real
  traits_lineWeight :: AcGiLineWeight
  traits_transparency :: AcCmTransparency
  traits_layer :: string

definition attachToEntityTraits :: "AcDbDatabase \<Rightarrow> 'a AcDbEntity_scheme \<Rightarrow> AcGiSubEntityTraits" where
  "attachToEntityTraits database this =
     \<lparr>traits_rgbColor = rgbColor database this,
      traits_color = AcDbEntity.color this,
      traits_lineTypeScale = linetypeScale this,
      traits_lineWeight = lineWeight this,
      traits_transparency = transparency this,
      traits_layer = layer this\<rparr>"

section \<open>AcDbMText\<close>

record AcDbMText = AcDbEntity +
  height :: real
  width :: real
  contents :: string
  lineSpacingStyle :: int
  lineSpacingFactor :: real
  backgroundFill :: bool
  backgroundFillColor :: nat
  backgroundScaleFactor :: real
  backgroundFillTransparency :: real
  rotation :: real
  styleName :: string
  location :: AcGePoint3d
  attachmentPoint :: int
  direction :: AcGePoint3d
  drawingDirection :: int

text \<open>\<^verbatim>\<open>set backgroundFill(value)\<close> and \<^verbatim>\<open>set backgroundFillColor(value)\<close>.\<close>

definition set_backgroundFill :: "bool \<Rightarrow> AcDbMText \<Rightarrow> AcDbMText" where
  "set_backgroundFill v this =
     (let this1 = this\<lparr>backgroundFill := v\<rparr>
      in this1\<lparr>backgroundFillColor := 0xc8c8c8\<rparr>)"

definition set_backgroundFillColor :: "nat \<Rightarrow> AcDbMText \<Rightarrow> AcDbMText" where
  "set_backgroundFillColor v this = this\<lparr>backgroundFillColor := v\<rparr>"











section \<open>Errors, and geometry-engine values used by the entities\<close>

text \<open>A thrown JavaScript error, with its message where the source gives one.\<close>

datatype error = Error string | TypeError

text \<open>
  Modelled from the spec: \<^verbatim>\<open>AcGeBox3d\<close> of \<^verbatim>\<open>@mlightcad/geometry-engine\<close> is not under
  \<^verbatim>\<open>src/\<close>. It is the axis-aligned bounding box: \<^verbatim>\<open>new AcGeBox3d()\<close> is the empty box,
  \<^verbatim>\<open>expandByPoint\<close> grows the box to hold one more point (the first point makes the box
  that point alone), \<^verbatim>\<open>setFromPoints\<close> empties the box and expands it by each point.
\<close>

datatype AcGeBox3d = AcGeBox3d_empty | AcGeBox3d (minPoint: AcGePoint3d) (maxPoint: AcGePoint3d)

fun expandByPoint :: "AcGePoint3d \<Rightarrow> AcGeBox3d \<Rightarrow> AcGeBox3d" where
  "expandByPoint p AcGeBox3d_empty = AcGeBox3d p p"
| "expandByPoint p (AcGeBox3d lo hi) =
     AcGeBox3d (AcGePoint3d (min (x3 lo) (x3 p)) (min (y3 lo) (y3 p)) (min (z3 lo) (z3 p)))
               (AcGePoint3d (max (x3 hi) (x3 p)) (max (y3 hi) (y3 p)) (max (z3 hi) (z3 p)))"

definition setFromPoints :: "AcGePoint3d list \<Rightarrow> AcGeBox3d" where
  "setFromPoints ps = foldl (\<lambda>b p. expandByPoint p b) AcGeBox3d_empty ps"

text \<open>
  Modelled from the spec: the vector methods \<^verbatim>\<open>multiplyScalar\<close> and \<^verbatim>\<open>add\<close> of
  \<^verbatim>\<open>AcGeVector3d\<close> (geometry engine, not under \<^verbatim>\<open>src/\<close>), componentwise. A vector is
  held as an \<open>AcGePoint3d\<close>, as the setters of the source type \<^verbatim>\<open>unitDir\<close>.
\<close>

definition multiplyScalar :: "real \<Rightarrow> AcGePoint3d \<Rightarrow> AcGePoint3d" where
  "multiplyScalar k v = AcGePoint3d (x3 v * k) (y3 v * k) (z3 v * k)"

definition add :: "AcGePoint3d \<Rightarrow> AcGePoint3d \<Rightarrow> AcGePoint3d" where
  "add p v = AcGePoint3d (x3 v + x3 p) (y3 v + y3 p) (z3 v + z3 p)"

text \<open>
  What an entity asks of the renderer in \<^verbatim>\<open>draw\<close>: the primitive and its arguments.
  A \<^verbatim>\<open>draw\<close> of the model returns the traits it wrote and the primitive it asked for.
\<close>

datatype AcGiRequest = Lines "AcGePoint3d list"

section \<open>AcDbEntity: the typed setters\<close>






definition set_visibility :: "bool \<Rightarrow> 'a AcDbEntity_scheme \<Rightarrow> 'a AcDbEntity_scheme" where
  "set_visibility v this = this\<lparr>visibility := v\<rparr>"





section \<open>AcDbText, AcDbPoint, AcDbCircle, AcDbArc and AcDbEllipse: fields and setters\<close>

datatype AcDbTextHorizontalMode = LEFT | CENTER | RIGHT | ALIGNED | MIDDLE | FIT

datatype AcDbTextVerticalMode = BASELINE | BOTTOM | V_MIDDLE | TOP

record AcDbText = AcDbEntity +
  textString :: string
  thickness :: real
  height :: real
  position :: AcGePoint3d
  rotation :: real
  oblique :: real
  horizontalMode :: AcDbTextHorizontalMode
  verticalModel :: AcDbTextVerticalMode
  styleName :: string
  widthFactor :: real








text \<open>
  \<^verbatim>\<open>AcDbPoint\<close>: \<^verbatim>\<open>set position(value)\<close> runs
  \<^verbatim>\<open>this._geo.set(value.x, value.y, value.z || 0)\<close>.
\<close>

record AcDbPoint = AcDbEntity +
  geo :: AcGePoint3d





text \<open>
  \<^verbatim>\<open>AcDbCircle\<close>, \<^verbatim>\<open>AcDbArc\<close> and \<^verbatim>\<open>AcDbEllipse\<close> keep one engine object, \<^verbatim>\<open>_geo\<close>. A
  getter returns what the engine's getter returns; a setter runs
  \<^verbatim>\<open>this._geo.radius = value\<close>, the engine's setter on \<^verbatim>\<open>_geo\<close>, and throws what that
  throws, the entity then being as before. \<^verbatim>\<open>AcDbCircle\<close> has no setter for \<^verbatim>\<open>normal\<close>.
\<close>

record 'g AcDbCircle = AcDbEntity +
  geo :: "'g"






record 'g AcDbArc = AcDbEntity +
  geo :: "'g"











record 'g AcDbEllipse = AcDbEntity +
  geo :: "'g"













section \<open>AcDbFace\<close>

record AcDbFace = AcDbEntity +
  vertices :: "AcGePoint3d list"
  edgeInvisibilities :: int

text \<open>
  The bitwise operators of JavaScript work on the 32-bit two's complement reading of
  their operands (\<^verbatim>\<open>ToInt32\<close>); a shift uses the low five bits of its count.
\<close>

definition toInt32 :: "int \<Rightarrow> int" where
  "toInt32 n = signed_take_bit 31 n"

definition js_and :: "int \<Rightarrow> int \<Rightarrow> int" where
  "js_and a b = toInt32 (toInt32 a AND toInt32 b)"

definition js_or :: "int \<Rightarrow> int \<Rightarrow> int" where
  "js_or a b = toInt32 (toInt32 a OR toInt32 b)"

definition js_shl :: "int \<Rightarrow> int \<Rightarrow> int" where
  "js_shl a n = toInt32 (push_bit (nat (n mod 32)) (toInt32 a))"

definition setEdgeInvisibilities :: "int \<Rightarrow> AcDbFace \<Rightarrow> AcDbFace" where
  "setEdgeInvisibilities invisibilities this = this\<lparr>edgeInvisibilities := invisibilities\<rparr>"

definition isEdgeVisibleAt :: "int \<Rightarrow> AcDbFace \<Rightarrow> error + bool" where
  "isEdgeVisibleAt index this =
     (if index < 0 \<or> index > 3 then Inl (Error ''Index out of range'')
      else Inr (js_and (edgeInvisibilities this) (js_shl 1 index) = 0))"

definition makeEdgeInvisibleAt :: "int \<Rightarrow> AcDbFace \<Rightarrow> error + AcDbFace" where
  "makeEdgeInvisibleAt index this =
     (if index < 0 \<or> index > 3 then Inl (Error ''Index out of range'')
      else Inr (this\<lparr>edgeInvisibilities := js_or (edgeInvisibilities this) (js_shl 1 index)\<rparr>))"

text \<open>The constructor: three vertices at the origin, every edge visible.\<close>

definition AcDbFace_new :: "string \<Rightarrow> AcDbFace" where
  "AcDbFace_new oid =
     AcDbEntity.extend (AcDbEntity_new oid)
       (AcDbFace.fields [AcGePoint3d_origin, AcGePoint3d_origin, AcGePoint3d_origin] 0)"

section \<open>AcDbRay and AcDbXline\<close>

record AcDbRay = AcDbEntity +
  basePoint :: AcGePoint3d
  unitDir :: AcGePoint3d

definition AcDbRay_new :: "string \<Rightarrow> AcDbRay" where
  "AcDbRay_new oid =
     AcDbEntity.extend (AcDbEntity_new oid) (AcDbRay.fields AcGePoint3d_origin AcGePoint3d_origin)"


definition AcDbRay_set_unitDir :: "AcGePoint3d \<Rightarrow> AcDbRay \<Rightarrow> AcDbRay" where
  "AcDbRay_set_unitDir v this = this\<lparr>AcDbRay.unitDir := v\<rparr>"

definition AcDbRay_geometricExtents :: "AcDbRay \<Rightarrow> AcGeBox3d" where
  "AcDbRay_geometricExtents this =
     (let extents = AcGeBox3d_empty;
          extents = expandByPoint (add (AcDbRay.basePoint this) (multiplyScalar 10 (AcDbRay.unitDir this))) extents;
          extents = expandByPoint (add (AcDbRay.basePoint this) (multiplyScalar (- 10) (AcDbRay.unitDir this))) extents
      in extents)"

definition AcDbRay_draw :: "AcDbDatabase \<Rightarrow> AcDbRay \<Rightarrow> AcGiSubEntityTraits \<times> AcGiRequest" where
  "AcDbRay_draw database this =
     (let points = [];
          points = points @ [AcDbRay.basePoint this];
          points = points @ [add (AcDbRay.basePoint this) (multiplyScalar 1000000 (AcDbRay.unitDir this))];
          traits = attachToEntityTraits database this
      in (traits, Lines points))"

record AcDbXline = AcDbEntity +
  basePoint :: AcGePoint3d
  unitDir :: AcGePoint3d

definition AcDbXline_new :: "string \<Rightarrow> AcDbXline" where
  "AcDbXline_new oid =
     AcDbEntity.extend (AcDbEntity_new oid) (AcDbXline.fields AcGePoint3d_origin AcGePoint3d_origin)"


definition AcDbXline_set_unitDir :: "AcGePoint3d \<Rightarrow> AcDbXline \<Rightarrow> AcDbXline" where
  "AcDbXline_set_unitDir v this = this\<lparr>AcDbXline.unitDir := v\<rparr>"

definition AcDbXline_geometricExtents :: "AcDbXline \<Rightarrow> AcGeBox3d" where
  "AcDbXline_geometricExtents this =
     (let extents = AcGeBox3d_empty;
          extents = expandByPoint (add (AcDbXline.basePoint this) (multiplyScalar 10 (AcDbXline.unitDir this))) extents;
          extents = expandByPoint (add (AcDbXline.basePoint this) (multiplyScalar (- 10) (AcDbXline.unitDir this))) extents
      in extents)"

definition AcDbXline_draw :: "AcDbDatabase \<Rightarrow> AcDbXline \<Rightarrow> AcGiSubEntityTraits \<times> AcGiRequest" where
  "AcDbXline_draw database this =
     (let points = [];
          points = points @ [add (AcDbXline.basePoint this) (multiplyScalar (- 1000000) (AcDbXline.unitDir this))];
          points = points @ [add (AcDbXline.basePoint this) (multiplyScalar 1000000 (AcDbXline.unitDir this))];
          traits = attachToEntityTraits database this
      in (traits, Lines points))"

section \<open>AcDbLine\<close>

text \<open>
  Modelled from the spec: \<^verbatim>\<open>AcGeLine3d\<close> of the geometry engine is not under \<^verbatim>\<open>src/\<close>.
  It is the line segment of two end points; \<^verbatim>\<open>midPoint\<close> is the point half way between
  them ("the midpoint between the start and end points") and \<^verbatim>\<open>box\<close> the bounding box of
  the two end points. Its setters copy the point they are given.
\<close>

record AcGeLine3d =
  startPoint :: AcGePoint3d
  endPoint :: AcGePoint3d

definition AcGeLine3d_midPoint :: "AcGeLine3d \<Rightarrow> AcGePoint3d" where
  "AcGeLine3d_midPoint l =
     AcGePoint3d ((x3 (startPoint l) + x3 (endPoint l)) / 2)
                 ((y3 (startPoint l) + y3 (endPoint l)) / 2)
                 ((z3 (startPoint l) + z3 (endPoint l)) / 2)"

definition AcGeLine3d_box :: "AcGeLine3d \<Rightarrow> AcGeBox3d" where
  "AcGeLine3d_box l = setFromPoints [startPoint l, endPoint l]"

record AcDbLine = AcDbEntity +
  geo :: AcGeLine3d

definition AcDbLine_new :: "string \<Rightarrow> AcGePoint3d \<Rightarrow> AcGePoint3d \<Rightarrow> AcDbLine" where
  "AcDbLine_new oid start end' =
     AcDbEntity.extend (AcDbEntity_new oid)
       (AcDbLine.fields \<lparr>startPoint = start, endPoint = end'\<rparr>)"

definition AcDbLine_startPoint :: "AcDbLine \<Rightarrow> AcGePoint3d" where
  "AcDbLine_startPoint this = startPoint (geo this)"


definition AcDbLine_endPoint :: "AcDbLine \<Rightarrow> AcGePoint3d" where
  "AcDbLine_endPoint this = endPoint (geo this)"


definition AcDbLine_midPoint :: "AcDbLine \<Rightarrow> AcGePoint3d" where
  "AcDbLine_midPoint this = AcGeLine3d_midPoint (geo this)"

definition AcDbLine_geometricExtents :: "AcDbLine \<Rightarrow> AcGeBox3d" where
  "AcDbLine_geometricExtents this = AcGeLine3d_box (geo this)"

definition AcDbLine_subGetGripPoints :: "AcDbLine \<Rightarrow> AcGePoint3d list" where
  "AcDbLine_subGetGripPoints this =
     (let gripPoints = [];
          gripPoints = gripPoints @ [AcDbLine_midPoint this];
          gripPoints = gripPoints @ [AcDbLine_startPoint this];
          gripPoints = gripPoints @ [AcDbLine_endPoint this]
      in gripPoints)"

text \<open>
  Modelled from the spec: the enum \<^verbatim>\<open>AcDbOsnapMode\<close> of \<^verbatim>\<open>../misc/AcDbOsnapMode\<close> is not
  under \<^verbatim>\<open>src/\<close>. The five modes the switch of \<^verbatim>\<open>AcDbLine.subGetOsnapPoints\<close> names are
  constructors; \<open>OtherMode n\<close> is any other value of the enum, which the switch sends to
  its \<^verbatim>\<open>default\<close> branch.
\<close>

datatype AcDbOsnapMode = EndPoint | MidPoint | Nearest | Perpendicular | Tangent | OtherMode nat

text \<open>
  \<^verbatim>\<open>AcDbEntity.subGetOsnapPoints\<close> has an empty body. \<^verbatim>\<open>AcDbLine.subGetOsnapPoints\<close>
  pushes onto the caller's array, which the model returns extended. The geometry engine's
  \<^verbatim>\<open>project\<close> and \<^verbatim>\<open>perpPoint\<close> of \<^verbatim>\<open>AcGeLine3d\<close> are parameters.
\<close>

definition AcDbEntity_subGetOsnapPoints ::
  "AcDbOsnapMode \<Rightarrow> AcGePoint3d \<Rightarrow> AcGePoint3d \<Rightarrow> AcGePoint3d list \<Rightarrow> AcGePoint3d list" where
  "AcDbEntity_subGetOsnapPoints osnapMode pickPoint lastPoint snapPoints = snapPoints"

definition AcDbLine_subGetOsnapPoints ::
  "(AcGeLine3d \<Rightarrow> AcGePoint3d \<Rightarrow> AcGePoint3d) \<Rightarrow> (AcGeLine3d \<Rightarrow> AcGePoint3d \<Rightarrow> AcGePoint3d) \<Rightarrow>
   AcDbLine \<Rightarrow> AcDbOsnapMode \<Rightarrow> AcGePoint3d \<Rightarrow> AcGePoint3d \<Rightarrow> AcGePoint3d list \<Rightarrow> AcGePoint3d list" where
  "AcDbLine_subGetOsnapPoints project perpPoint this osnapMode pickPoint lastPoint snapPoints =
     (let startPoint = AcDbLine_startPoint this;
          endPoint = AcDbLine_endPoint this
      in case osnapMode of
           EndPoint \<Rightarrow> (snapPoints @ [startPoint]) @ [endPoint]
         | MidPoint \<Rightarrow> snapPoints @ [AcDbLine_midPoint this]
         | Nearest \<Rightarrow> (let projectedPoint = project (geo this) pickPoint in snapPoints @ [projectedPoint])
         | Perpendicular \<Rightarrow> (let perpPoint' = perpPoint (geo this) pickPoint in snapPoints @ [perpPoint'])
         | Tangent \<Rightarrow> snapPoints @ [startPoint]
         | OtherMode n \<Rightarrow> snapPoints)"

section \<open>AcDbLeader\<close>

text \<open>
  Modelled from the spec: \<^verbatim>\<open>AcGeSpline3d\<close> of the geometry engine is not under \<^verbatim>\<open>src/\<close>.
  The leader builds it with \<^verbatim>\<open>new AcGeSpline3d(this._vertices, 'Uniform')\<close>; a spline of
  the model keeps the two arguments it was built from. What the engine computes from a
  spline (\<^verbatim>\<open>calculateBoundingBox\<close>, \<^verbatim>\<open>getPoints\<close>) is a parameter of the functions that
  call it.
\<close>

datatype AcGeSpline3d = AcGeSpline3d (fitPoints: "AcGePoint3d list") (knotParameterization: string)

datatype AcDbLeaderAnnotationType = MText | Fcf | BlockReference | NoAnnotation

record AcDbLeader = AcDbEntity +
  isSplined :: bool
  splineGeo :: "AcGeSpline3d option"
  updated :: bool
  hasArrowHead :: bool
  vertices :: "AcGePoint3d list"
  dimensionStyle :: string
  hasHookLine :: bool
  annoType :: AcDbLeaderAnnotationType

definition AcDbLeader_new :: "string \<Rightarrow> AcDbLeader" where
  "AcDbLeader_new oid =
     AcDbEntity.extend (AcDbEntity_new oid)
       (AcDbLeader.fields False None False False [] [] False NoAnnotation)"


definition numVertices :: "AcDbLeader \<Rightarrow> nat" where
  "numVertices this = length (AcDbLeader.vertices this)"

definition appendVertex :: "AcGePoint3d \<Rightarrow> AcDbLeader \<Rightarrow> AcDbLeader" where
  "appendVertex point this =
     (let this1 = this\<lparr>AcDbLeader.vertices := AcDbLeader.vertices this @ [point]\<rparr>
      in this1\<lparr>updated := True\<rparr>)"

text \<open>
  \<^verbatim>\<open>setVertexAt\<close> and \<^verbatim>\<open>vertexAt\<close>, as written: the body of the \<^verbatim>\<open>if\<close> runs for an
  index outside the array, where \<^verbatim>\<open>this._vertices[index]\<close> is \<^verbatim>\<open>undefined\<close>. In
  \<^verbatim>\<open>setVertexAt\<close> the call of \<^verbatim>\<open>copy\<close> on it is a \<^verbatim>\<open>TypeError\<close>; in \<^verbatim>\<open>vertexAt\<close> the
  expression is evaluated and dropped. Every path that leaves the \<^verbatim>\<open>if\<close> reaches the
  \<^verbatim>\<open>throw\<close> after it. A thrown call leaves the leader as it was.
\<close>

definition setVertexAt :: "int \<Rightarrow> AcGePoint3d \<Rightarrow> AcDbLeader \<Rightarrow> error + AcDbLeader" where
  "setVertexAt index point this =
     (if index < 0 \<or> index \<ge> int (length (AcDbLeader.vertices this))
      then Inl TypeError
      else Inl (Error ''The vertex index is out of range!''))"

definition vertexAt :: "int \<Rightarrow> AcDbLeader \<Rightarrow> error + AcGePoint3d" where
  "vertexAt index this =
     (if index < 0 \<or> index \<ge> int (length (AcDbLeader.vertices this))
      then Inl (Error ''The vertex index is out of range!'')
      else Inl (Error ''The vertex index is out of range!''))"






section \<open>AcDbRasterImage\<close>

text \<open>
  Modelled from the spec: \<^verbatim>\<open>AcGeBox2d\<close> and \<^verbatim>\<open>AcGePoint2d.rotateAround\<close> of the geometry
  engine are not under \<^verbatim>\<open>src/\<close>. The box is the bounding box of the points given to
  \<^verbatim>\<open>setFromPoints\<close>, its \<^verbatim>\<open>min\<close> the corner of the smallest coordinates;
  \<^verbatim>\<open>rotateAround(center, angle)\<close> rotates a point about a centre by an angle in radians,
  counterclockwise.
\<close>

datatype AcGeBox2d = AcGeBox2d_empty | AcGeBox2d (min2: AcGePoint2d) (max2: AcGePoint2d)

fun expandByPoint2d :: "AcGePoint2d \<Rightarrow> AcGeBox2d \<Rightarrow> AcGeBox2d" where
  "expandByPoint2d p AcGeBox2d_empty = AcGeBox2d p p"
| "expandByPoint2d p (AcGeBox2d lo hi) =
     AcGeBox2d (AcGePoint2d (min (x2 lo) (x2 p)) (min (y2 lo) (y2 p)))
               (AcGePoint2d (max (x2 hi) (x2 p)) (max (y2 hi) (y2 p)))"

definition setFromPoints2d :: "AcGePoint2d list \<Rightarrow> AcGeBox2d" where
  "setFromPoints2d ps = foldl (\<lambda>b p. expandByPoint2d p b) AcGeBox2d_empty ps"

definition rotateAround :: "AcGePoint2d \<Rightarrow> real \<Rightarrow> AcGePoint2d \<Rightarrow> AcGePoint2d" where
  "rotateAround center' angle this =
     (let c = cos angle; s = sin angle;
          x = x2 this - x2 center';
          y = y2 this - y2 center'
      in AcGePoint2d (x * c - y * s + x2 center') (x * s + y * c + y2 center'))"

datatype AcDbRasterImageClipBoundaryType = Invalid | Rect | Poly

record AcDbRasterImage = AcDbEntity +
  brightness :: real
  contrast :: real
  fade :: real
  width :: real
  height :: real
  position :: AcGePoint3d
  rotation :: real
  scale :: AcGePoint2d
  clipBoundaryType :: AcDbRasterImageClipBoundaryType
  clipBoundary :: "AcGePoint2d list"
  imageDefId :: string
  isClipped :: bool
  isShownClipped :: bool
  isImageShown :: bool
  isImageTransparent :: bool
  imageBlob :: "string option"

definition AcDbRasterImage_new :: "string \<Rightarrow> AcDbRasterImage" where
  "AcDbRasterImage_new oid =
     AcDbEntity.extend (AcDbEntity_new oid)
       (AcDbRasterImage.fields 50 50 0 0 0 AcGePoint3d_origin 0 (AcGePoint2d 1 1) Rect [] []
          False False True False None)"

definition AcDbRasterImage_set_width :: "real \<Rightarrow> AcDbRasterImage \<Rightarrow> AcDbRasterImage" where
  "AcDbRasterImage_set_width v this = this\<lparr>AcDbRasterImage.width := v\<rparr>"

definition AcDbRasterImage_set_height :: "real \<Rightarrow> AcDbRasterImage \<Rightarrow> AcDbRasterImage" where
  "AcDbRasterImage_set_height v this = this\<lparr>AcDbRasterImage.height := v\<rparr>"

definition AcDbRasterImage_set_position :: "AcGePoint3d \<Rightarrow> AcDbRasterImage \<Rightarrow> AcDbRasterImage" where
  "AcDbRasterImage_set_position v this = this\<lparr>AcDbRasterImage.position := v\<rparr>"

definition AcDbRasterImage_set_rotation :: "real \<Rightarrow> AcDbRasterImage \<Rightarrow> AcDbRasterImage" where
  "AcDbRasterImage_set_rotation v this = this\<lparr>AcDbRasterImage.rotation := v\<rparr>"

definition AcDbRasterImage_set_clipBoundary :: "AcGePoint2d list \<Rightarrow> AcDbRasterImage \<Rightarrow> AcDbRasterImage" where
  "AcDbRasterImage_set_clipBoundary v this = this\<lparr>clipBoundary := [] @ v\<rparr>"

definition AcDbRasterImage_set_isClipped :: "bool \<Rightarrow> AcDbRasterImage \<Rightarrow> AcDbRasterImage" where
  "AcDbRasterImage_set_isClipped v this = this\<lparr>isClipped := v\<rparr>"

text \<open>
  \<^verbatim>\<open>boundaryPath\<close>. In the unclipped branch the loop
  \<^verbatim>\<open>for (let index = 1; index < 4; index++)\<close> copies the point at \<^verbatim>\<open>index\<close> into a scratch
  2D point, rotates it about the copy of \<^verbatim>\<open>points[1]\<close> taken before the loop and writes the
  x and y back; the z of the point stays.
\<close>

definition rotateVertex :: "AcGePoint2d \<Rightarrow> real \<Rightarrow> AcGePoint3d \<Rightarrow> AcGePoint3d" where
  "rotateVertex point1 angle p =
     (let point2 = rotateAround point1 angle (AcGePoint2d (x3 p) (y3 p))
      in AcGePoint3d (x2 point2) (y2 point2) (z3 p))"

definition boundaryPath :: "AcDbRasterImage \<Rightarrow> AcGePoint3d list" where
  "boundaryPath this =
     (if isClipped this \<and> length (clipBoundary this) > 3 then
        (let wcsWidth = AcDbRasterImage.width this;
             wcsHeight = AcDbRasterImage.height this;
             ocsBox = setFromPoints2d (clipBoundary this);
             translation =
               AcGePoint2d (x3 (AcDbRasterImage.position this) - x2 (min2 ocsBox) * wcsWidth)
                           (y3 (AcDbRasterImage.position this) - y2 (min2 ocsBox) * wcsHeight)
         in map (\<lambda>point.
                   (let x = x2 point * wcsWidth + x2 translation;
                        y = y2 point * wcsHeight + y2 translation
                    in AcGePoint3d x y (z3 (AcDbRasterImage.position this))))
                (clipBoundary this))
      else
        (let pos = AcDbRasterImage.position this;
             points =
               [pos,
                AcGePoint3d (x3 pos + AcDbRasterImage.width this) (y3 pos) (z3 pos),
                AcGePoint3d (x3 pos + AcDbRasterImage.width this)
                            (y3 pos + AcDbRasterImage.height this) (z3 pos),
                AcGePoint3d (x3 pos) (y3 pos + AcDbRasterImage.height this) (z3 pos)];
             points =
               (if AcDbRasterImage.rotation this > 0 then
                  (let point1 = AcGePoint2d (x3 (points ! 1)) (y3 (points ! 1))
                   in foldl (\<lambda>pts index.
                               pts[index := rotateVertex point1 (AcDbRasterImage.rotation this) (pts ! index)])
                        points [1..<4])
                else points)
         in points @ [points ! 0]))"

text \<open>
  The boundary path as the spec words it, to compare with: the same, but with the
  rectangle rotated whenever the rotation is not zero.
\<close>

definition boundaryPath_spec :: "AcDbRasterImage \<Rightarrow> AcGePoint3d list" where
  "boundaryPath_spec this =
     (if isClipped this \<and> length (clipBoundary this) \<ge> 4 then
        (let tx = x3 (AcDbRasterImage.position this)
                    - x2 (min2 (setFromPoints2d (clipBoundary this))) * AcDbRasterImage.width this;
             ty = y3 (AcDbRasterImage.position this)
                    - y2 (min2 (setFromPoints2d (clipBoundary this))) * AcDbRasterImage.height this
         in map (\<lambda>p. AcGePoint3d (x2 p * AcDbRasterImage.width this + tx)
                                 (y2 p * AcDbRasterImage.height this + ty)
                                 (z3 (AcDbRasterImage.position this)))
                (clipBoundary this))
      else
        (let pos = AcDbRasterImage.position this;
             v1 = AcGePoint3d (x3 pos + AcDbRasterImage.width this) (y3 pos) (z3 pos);
             v2 = AcGePoint3d (x3 pos + AcDbRasterImage.width this)
                              (y3 pos + AcDbRasterImage.height this) (z3 pos);
             v3 = AcGePoint3d (x3 pos) (y3 pos + AcDbRasterImage.height this) (z3 pos);
             pivot = AcGePoint2d (x3 v1) (y3 v1);
             r = AcDbRasterImage.rotation this
         in if r \<noteq> 0
            then [pos, rotateVertex pivot r v1, rotateVertex pivot r v2, rotateVertex pivot r v3, pos]
            else [pos, v1, v2, v3, pos]))"

section \<open>Property reflection\<close>























section \<open>Theorems\<close>

text \<open>
  C10. For every multiline text entity and every boolean \<open>b\<close>, the setter
  \<^verbatim>\<open>backgroundFill = b\<close> stores \<open>b\<close> and resets the background fill colour to
  \<^verbatim>\<open>0xc8c8c8\<close> whatever \<open>b\<close> is, also when a colour \<open>c\<close> had been assigned through the
  \<^verbatim>\<open>backgroundFillColor\<close> setter just before; every other field keeps its value:
  putting the two old values back gives the entity one started from.
\<close>

theorem mtext_backgroundFill_resets_color:
  "backgroundFill (set_backgroundFill b m) = b
   \<and> backgroundFillColor (set_backgroundFill b m) = 0xc8c8c8
   \<and> backgroundFillColor (set_backgroundFill b (set_backgroundFillColor c m)) = 0xc8c8c8
   \<and> (set_backgroundFill b m)\<lparr>backgroundFill := backgroundFill m,
         backgroundFillColor := backgroundFillColor m\<rparr> = m"
  by (simp add: set_backgroundFill_def set_backgroundFillColor_def)

subsection \<open>AcDbFace: the edge-invisibility mask\<close>

lemma and_pow2_cases: "(a::int) AND 2 ^ n = (if bit a n then 2 ^ n else 0)"
  by (rule bit_eqI) (auto simp add: bit_and_iff bit_exp_iff)

lemma toInt32_small: "0 \<le> a \<Longrightarrow> a < 2 ^ 31 \<Longrightarrow> toInt32 a = a"
  unfolding toInt32_def using signed_take_bit_int_eq_self by auto

lemma bit_toInt32: "n < 32 \<Longrightarrow> bit (toInt32 m) n = bit m n"
  by (auto simp add: toInt32_def bit_signed_take_bit_iff)

lemma js_shl_one: "0 \<le> i \<Longrightarrow> i \<le> 3 \<Longrightarrow> js_shl 1 i = 2 ^ nat i"
proof -
  assume "0 \<le> i" "i \<le> 3"
  then consider "i = 0" | "i = 1" | "i = 2" | "i = 3" by linarith
  then show ?thesis
    by cases (simp_all add: js_shl_def toInt32_small)
qed

lemma js_and_bit: "n \<le> 3 \<Longrightarrow> (js_and m (2 ^ n) = 0) = (\<not> bit m n)"
proof -
  assume n: "n \<le> 3"
  have p: "(2::int) ^ n < 2 ^ 31" by (rule power_strict_increasing) (use n in auto)
  have "toInt32 ((2::int) ^ n) = 2 ^ n" using p by (simp add: toInt32_small)
  moreover have "toInt32 (toInt32 m AND 2 ^ n) = (toInt32 m AND 2 ^ n)"
    using p by (simp add: and_pow2_cases toInt32_small)
  ultimately show ?thesis
    using n by (simp add: js_and_def and_pow2_cases bit_toInt32)
qed

lemma js_or_bit: "n \<le> 3 \<Longrightarrow> j < 32 \<Longrightarrow> bit (js_or m (2 ^ n)) j = (j = n \<or> bit m j)"
proof -
  assume n: "n \<le> 3" and j: "j < 32"
  have p: "(2::int) ^ n < 2 ^ 31" by (rule power_strict_increasing) (use n in auto)
  have "toInt32 ((2::int) ^ n) = 2 ^ n" using p by (simp add: toInt32_small)
  then show ?thesis
    using j by (auto simp add: js_or_def bit_toInt32 bit_or_iff bit_exp_iff)
qed

lemma isEdgeVisibleAt_in_range:
  "0 \<le> i \<Longrightarrow> i \<le> 3 \<Longrightarrow> isEdgeVisibleAt i f = Inr (\<not> bit (edgeInvisibilities f) (nat i))"
  by (simp add: isEdgeVisibleAt_def js_shl_one js_and_bit)

lemma makeEdgeInvisibleAt_in_range:
  "0 \<le> i \<Longrightarrow> i \<le> 3 \<Longrightarrow>
   makeEdgeInvisibleAt i f = Inr (f\<lparr>edgeInvisibilities := js_or (edgeInvisibilities f) (2 ^ nat i)\<rparr>)"
  by (simp add: makeEdgeInvisibleAt_def js_shl_one)

text \<open>
  C6. For a face with edge-invisibility mask \<open>m\<close> and an index \<open>i\<close> in 0..3,
  \<^verbatim>\<open>isEdgeVisibleAt(i)\<close> returns true exactly when bit \<open>i\<close> of \<open>m\<close> is clear, and
  \<^verbatim>\<open>makeEdgeInvisibleAt(i)\<close> sets bit \<open>i\<close> (the other bits of the 32-bit mask and the
  vertices stay as they are, and the edge is then reported invisible). For an index below
  0 or above 3 both throw "Index out of range". With the mask \<^verbatim>\<open>0b0101\<close> the edges
  0, 1, 2, 3 are reported false, true, false, true, and index 4 throws.
\<close>

theorem face_edge_visibility:
  "(0 \<le> i \<and> i \<le> 3 \<longrightarrow> isEdgeVisibleAt i f = Inr (\<not> bit (edgeInvisibilities f) (nat i)))
   \<and> (0 \<le> i \<and> i \<le> 3 \<longrightarrow>
        (\<exists>f'. makeEdgeInvisibleAt i f = Inr f'
           \<and> bit (edgeInvisibilities f') (nat i)
           \<and> (\<forall>j<32. j \<noteq> nat i \<longrightarrow> bit (edgeInvisibilities f') j = bit (edgeInvisibilities f) j)
           \<and> AcDbFace.vertices f' = AcDbFace.vertices f
           \<and> isEdgeVisibleAt i f' = Inr False))
   \<and> (i < 0 \<or> 3 < i \<longrightarrow>
        isEdgeVisibleAt i f = Inl (Error ''Index out of range'')
        \<and> makeEdgeInvisibleAt i f = Inl (Error ''Index out of range''))
   \<and> isEdgeVisibleAt 0 (setEdgeInvisibilities 5 f) = Inr False
   \<and> isEdgeVisibleAt 1 (setEdgeInvisibilities 5 f) = Inr True
   \<and> isEdgeVisibleAt 2 (setEdgeInvisibilities 5 f) = Inr False
   \<and> isEdgeVisibleAt 3 (setEdgeInvisibilities 5 f) = Inr True
   \<and> isEdgeVisibleAt 4 (setEdgeInvisibilities 5 f) = Inl (Error ''Index out of range'')"
proof -
  have vis: "0 \<le> i \<and> i \<le> 3 \<longrightarrow> isEdgeVisibleAt i f = Inr (\<not> bit (edgeInvisibilities f) (nat i))"
    by (simp add: isEdgeVisibleAt_in_range)
  have mk: "0 \<le> i \<and> i \<le> 3 \<longrightarrow>
        (\<exists>f'. makeEdgeInvisibleAt i f = Inr f'
           \<and> bit (edgeInvisibilities f') (nat i)
           \<and> (\<forall>j<32. j \<noteq> nat i \<longrightarrow> bit (edgeInvisibilities f') j = bit (edgeInvisibilities f) j)
           \<and> AcDbFace.vertices f' = AcDbFace.vertices f
           \<and> isEdgeVisibleAt i f' = Inr False)"
  proof
    assume r: "0 \<le> i \<and> i \<le> 3"
    then have n: "nat i \<le> 3" by linarith
    let ?f = "f\<lparr>edgeInvisibilities := js_or (edgeInvisibilities f) (2 ^ nat i)\<rparr>"
    have b: "bit (edgeInvisibilities ?f) (nat i)" using n by (simp add: js_or_bit)
    have "isEdgeVisibleAt i ?f = Inr False"
      using r b by (simp add: isEdgeVisibleAt_in_range)
    moreover have "\<forall>j<32. j \<noteq> nat i \<longrightarrow> bit (edgeInvisibilities ?f) j = bit (edgeInvisibilities f) j"
      using n by (simp add: js_or_bit)
    ultimately show "\<exists>f'. makeEdgeInvisibleAt i f = Inr f'
           \<and> bit (edgeInvisibilities f') (nat i)
           \<and> (\<forall>j<32. j \<noteq> nat i \<longrightarrow> bit (edgeInvisibilities f') j = bit (edgeInvisibilities f) j)
           \<and> AcDbFace.vertices f' = AcDbFace.vertices f
           \<and> isEdgeVisibleAt i f' = Inr False"
      using r b by (simp add: makeEdgeInvisibleAt_in_range)
  qed
  have out: "i < 0 \<or> 3 < i \<longrightarrow>
        isEdgeVisibleAt i f = Inl (Error ''Index out of range'')
        \<and> makeEdgeInvisibleAt i f = Inl (Error ''Index out of range'')"
    by (auto simp add: isEdgeVisibleAt_def makeEdgeInvisibleAt_def)
  have ex: "isEdgeVisibleAt 0 (setEdgeInvisibilities 5 f) = Inr False"
    "isEdgeVisibleAt 1 (setEdgeInvisibilities 5 f) = Inr True"
    "isEdgeVisibleAt 2 (setEdgeInvisibilities 5 f) = Inr False"
    "isEdgeVisibleAt 3 (setEdgeInvisibilities 5 f) = Inr True"
    "isEdgeVisibleAt 4 (setEdgeInvisibilities 5 f) = Inl (Error ''Index out of range'')"
    by (simp_all add: isEdgeVisibleAt_in_range setEdgeInvisibilities_def bit_numeral_Bit0_Suc_iff bit_numeral_Bit1_Suc_iff numeral_2_eq_2 numeral_3_eq_3)
       (simp add: isEdgeVisibleAt_def)
  from vis mk out ex show ?thesis by blast
qed

text \<open>The witness: the mask \<^verbatim>\<open>0b0101\<close> on a new face with index 1, and the new face with
  the indices 4 and -1.\<close>

theorem face_edge_visibility_witness:
  "isEdgeVisibleAt 1 (setEdgeInvisibilities 5 (AcDbFace_new ''face'')) = Inr True
   \<and> (\<exists>f'. makeEdgeInvisibleAt 1 (setEdgeInvisibilities 5 (AcDbFace_new ''face'')) = Inr f'
        \<and> bit (edgeInvisibilities f') 1
        \<and> isEdgeVisibleAt 1 f' = Inr False)
   \<and> isEdgeVisibleAt 4 (AcDbFace_new ''face'') = Inl (Error ''Index out of range'')
   \<and> makeEdgeInvisibleAt (- 1) (AcDbFace_new ''face'') = Inl (Error ''Index out of range'')"
  using face_edge_visibility [of 1 "setEdgeInvisibilities 5 (AcDbFace_new ''face'')"]
        face_edge_visibility [of 4 "AcDbFace_new ''face''"]
        face_edge_visibility [of "- 1" "AcDbFace_new ''face''"]
  by (auto simp add: setEdgeInvisibilities_def)

subsection \<open>AcDbRay and AcDbXline: the drawn segment and the extents\<close>

lemmas ctor_defs = AcDbEntity_new_def AcDbEntity.defs AcGePoint3d_origin_def

text \<open>
  C7. \<^verbatim>\<open>AcDbRay.draw\<close> asks for the segment from the base point to
  base point + unit direction * 1,000,000; \<^verbatim>\<open>AcDbXline.draw\<close> for the segment from
  base point - unit direction * 1,000,000 to base point + unit direction * 1,000,000.
  \<^verbatim>\<open>geometricExtents\<close> of both is the box spanned by base point + unit direction * 10 and
  base point - unit direction * 10, that is, base point minus and plus ten times the
  absolute value of each component of the direction: the multiplier of the extents is 10,
  that of the drawing 1,000,000. For a new ray or construction line with direction
  (1,0,0) the drawn segment ends at x = 1000000 while the extents end at x = 10.
\<close>

theorem ray_xline_draw_and_extents:
  "snd (AcDbRay_draw db r) =
     Lines [AcDbRay.basePoint r,
            AcGePoint3d (x3 (AcDbRay.basePoint r) + x3 (AcDbRay.unitDir r) * 1000000)
                        (y3 (AcDbRay.basePoint r) + y3 (AcDbRay.unitDir r) * 1000000)
                        (z3 (AcDbRay.basePoint r) + z3 (AcDbRay.unitDir r) * 1000000)]
   \<and> snd (AcDbXline_draw db xl) =
     Lines [AcGePoint3d (x3 (AcDbXline.basePoint xl) - x3 (AcDbXline.unitDir xl) * 1000000)
                        (y3 (AcDbXline.basePoint xl) - y3 (AcDbXline.unitDir xl) * 1000000)
                        (z3 (AcDbXline.basePoint xl) - z3 (AcDbXline.unitDir xl) * 1000000),
            AcGePoint3d (x3 (AcDbXline.basePoint xl) + x3 (AcDbXline.unitDir xl) * 1000000)
                        (y3 (AcDbXline.basePoint xl) + y3 (AcDbXline.unitDir xl) * 1000000)
                        (z3 (AcDbXline.basePoint xl) + z3 (AcDbXline.unitDir xl) * 1000000)]
   \<and> AcDbRay_geometricExtents r =
     AcGeBox3d
       (AcGePoint3d (x3 (AcDbRay.basePoint r) - \<bar>x3 (AcDbRay.unitDir r)\<bar> * 10)
                    (y3 (AcDbRay.basePoint r) - \<bar>y3 (AcDbRay.unitDir r)\<bar> * 10)
                    (z3 (AcDbRay.basePoint r) - \<bar>z3 (AcDbRay.unitDir r)\<bar> * 10))
       (AcGePoint3d (x3 (AcDbRay.basePoint r) + \<bar>x3 (AcDbRay.unitDir r)\<bar> * 10)
                    (y3 (AcDbRay.basePoint r) + \<bar>y3 (AcDbRay.unitDir r)\<bar> * 10)
                    (z3 (AcDbRay.basePoint r) + \<bar>z3 (AcDbRay.unitDir r)\<bar> * 10))
   \<and> AcDbRay_geometricExtents r =
     setFromPoints
       [AcGePoint3d (x3 (AcDbRay.basePoint r) + x3 (AcDbRay.unitDir r) * 10)
                    (y3 (AcDbRay.basePoint r) + y3 (AcDbRay.unitDir r) * 10)
                    (z3 (AcDbRay.basePoint r) + z3 (AcDbRay.unitDir r) * 10),
        AcGePoint3d (x3 (AcDbRay.basePoint r) - x3 (AcDbRay.unitDir r) * 10)
                    (y3 (AcDbRay.basePoint r) - y3 (AcDbRay.unitDir r) * 10)
                    (z3 (AcDbRay.basePoint r) - z3 (AcDbRay.unitDir r) * 10)]
   \<and> AcDbXline_geometricExtents xl =
     AcGeBox3d
       (AcGePoint3d (x3 (AcDbXline.basePoint xl) - \<bar>x3 (AcDbXline.unitDir xl)\<bar> * 10)
                    (y3 (AcDbXline.basePoint xl) - \<bar>y3 (AcDbXline.unitDir xl)\<bar> * 10)
                    (z3 (AcDbXline.basePoint xl) - \<bar>z3 (AcDbXline.unitDir xl)\<bar> * 10))
       (AcGePoint3d (x3 (AcDbXline.basePoint xl) + \<bar>x3 (AcDbXline.unitDir xl)\<bar> * 10)
                    (y3 (AcDbXline.basePoint xl) + \<bar>y3 (AcDbXline.unitDir xl)\<bar> * 10)
                    (z3 (AcDbXline.basePoint xl) + \<bar>z3 (AcDbXline.unitDir xl)\<bar> * 10))
   \<and> AcDbXline_geometricExtents xl =
     setFromPoints
       [AcGePoint3d (x3 (AcDbXline.basePoint xl) + x3 (AcDbXline.unitDir xl) * 10)
                    (y3 (AcDbXline.basePoint xl) + y3 (AcDbXline.unitDir xl) * 10)
                    (z3 (AcDbXline.basePoint xl) + z3 (AcDbXline.unitDir xl) * 10),
        AcGePoint3d (x3 (AcDbXline.basePoint xl) - x3 (AcDbXline.unitDir xl) * 10)
                    (y3 (AcDbXline.basePoint xl) - y3 (AcDbXline.unitDir xl) * 10)
                    (z3 (AcDbXline.basePoint xl) - z3 (AcDbXline.unitDir xl) * 10)]
   \<and> snd (AcDbRay_draw db (AcDbRay_set_unitDir (AcGePoint3d 1 0 0) (AcDbRay_new oid))) =
     Lines [AcGePoint3d 0 0 0, AcGePoint3d 1000000 0 0]
   \<and> AcDbRay_geometricExtents (AcDbRay_set_unitDir (AcGePoint3d 1 0 0) (AcDbRay_new oid)) =
     AcGeBox3d (AcGePoint3d (- 10) 0 0) (AcGePoint3d 10 0 0)
   \<and> snd (AcDbXline_draw db (AcDbXline_set_unitDir (AcGePoint3d 1 0 0) (AcDbXline_new oid))) =
     Lines [AcGePoint3d (- 1000000) 0 0, AcGePoint3d 1000000 0 0]
   \<and> AcDbXline_geometricExtents (AcDbXline_set_unitDir (AcGePoint3d 1 0 0) (AcDbXline_new oid)) =
     AcGeBox3d (AcGePoint3d (- 10) 0 0) (AcGePoint3d 10 0 0)"
proof -
  have m1: "min (u * 10 + b) (b - u * 10) = b - \<bar>u\<bar> * 10" for b u :: real
    by (cases "0 \<le> u") (simp_all add: min_def)
  have m2: "max (u * 10 + b) (b - u * 10) = b + \<bar>u\<bar> * 10" for b u :: real
    by (cases "0 \<le> u") (simp_all add: max_def)
  note m = m1 m2
  have ray_draw: "snd (AcDbRay_draw db r) =
     Lines [AcDbRay.basePoint r,
            AcGePoint3d (x3 (AcDbRay.basePoint r) + x3 (AcDbRay.unitDir r) * 1000000)
                        (y3 (AcDbRay.basePoint r) + y3 (AcDbRay.unitDir r) * 1000000)
                        (z3 (AcDbRay.basePoint r) + z3 (AcDbRay.unitDir r) * 1000000)]" for r
    by (simp add: AcDbRay_draw_def add_def multiplyScalar_def add.commute)
  have xl_draw: "snd (AcDbXline_draw db xl) =
     Lines [AcGePoint3d (x3 (AcDbXline.basePoint xl) - x3 (AcDbXline.unitDir xl) * 1000000)
                        (y3 (AcDbXline.basePoint xl) - y3 (AcDbXline.unitDir xl) * 1000000)
                        (z3 (AcDbXline.basePoint xl) - z3 (AcDbXline.unitDir xl) * 1000000),
            AcGePoint3d (x3 (AcDbXline.basePoint xl) + x3 (AcDbXline.unitDir xl) * 1000000)
                        (y3 (AcDbXline.basePoint xl) + y3 (AcDbXline.unitDir xl) * 1000000)
                        (z3 (AcDbXline.basePoint xl) + z3 (AcDbXline.unitDir xl) * 1000000)]" for xl
    by (simp add: AcDbXline_draw_def add_def multiplyScalar_def add.commute)
  have ray_ext: "AcDbRay_geometricExtents r =
     AcGeBox3d
       (AcGePoint3d (x3 (AcDbRay.basePoint r) - \<bar>x3 (AcDbRay.unitDir r)\<bar> * 10)
                    (y3 (AcDbRay.basePoint r) - \<bar>y3 (AcDbRay.unitDir r)\<bar> * 10)
                    (z3 (AcDbRay.basePoint r) - \<bar>z3 (AcDbRay.unitDir r)\<bar> * 10))
       (AcGePoint3d (x3 (AcDbRay.basePoint r) + \<bar>x3 (AcDbRay.unitDir r)\<bar> * 10)
                    (y3 (AcDbRay.basePoint r) + \<bar>y3 (AcDbRay.unitDir r)\<bar> * 10)
                    (z3 (AcDbRay.basePoint r) + \<bar>z3 (AcDbRay.unitDir r)\<bar> * 10))" for r
    by (simp add: AcDbRay_geometricExtents_def add_def multiplyScalar_def m)
  have ray_span: "AcDbRay_geometricExtents r =
     setFromPoints
       [AcGePoint3d (x3 (AcDbRay.basePoint r) + x3 (AcDbRay.unitDir r) * 10)
                    (y3 (AcDbRay.basePoint r) + y3 (AcDbRay.unitDir r) * 10)
                    (z3 (AcDbRay.basePoint r) + z3 (AcDbRay.unitDir r) * 10),
        AcGePoint3d (x3 (AcDbRay.basePoint r) - x3 (AcDbRay.unitDir r) * 10)
                    (y3 (AcDbRay.basePoint r) - y3 (AcDbRay.unitDir r) * 10)
                    (z3 (AcDbRay.basePoint r) - z3 (AcDbRay.unitDir r) * 10)]"
    by (simp add: AcDbRay_geometricExtents_def setFromPoints_def add_def multiplyScalar_def add.commute)
  have xl_ext: "AcDbXline_geometricExtents xl =
     AcGeBox3d
       (AcGePoint3d (x3 (AcDbXline.basePoint xl) - \<bar>x3 (AcDbXline.unitDir xl)\<bar> * 10)
                    (y3 (AcDbXline.basePoint xl) - \<bar>y3 (AcDbXline.unitDir xl)\<bar> * 10)
                    (z3 (AcDbXline.basePoint xl) - \<bar>z3 (AcDbXline.unitDir xl)\<bar> * 10))
       (AcGePoint3d (x3 (AcDbXline.basePoint xl) + \<bar>x3 (AcDbXline.unitDir xl)\<bar> * 10)
                    (y3 (AcDbXline.basePoint xl) + \<bar>y3 (AcDbXline.unitDir xl)\<bar> * 10)
                    (z3 (AcDbXline.basePoint xl) + \<bar>z3 (AcDbXline.unitDir xl)\<bar> * 10))" for xl
    by (simp add: AcDbXline_geometricExtents_def add_def multiplyScalar_def m)
  have xl_span: "AcDbXline_geometricExtents xl =
     setFromPoints
       [AcGePoint3d (x3 (AcDbXline.basePoint xl) + x3 (AcDbXline.unitDir xl) * 10)
                    (y3 (AcDbXline.basePoint xl) + y3 (AcDbXline.unitDir xl) * 10)
                    (z3 (AcDbXline.basePoint xl) + z3 (AcDbXline.unitDir xl) * 10),
        AcGePoint3d (x3 (AcDbXline.basePoint xl) - x3 (AcDbXline.unitDir xl) * 10)
                    (y3 (AcDbXline.basePoint xl) - y3 (AcDbXline.unitDir xl) * 10)
                    (z3 (AcDbXline.basePoint xl) - z3 (AcDbXline.unitDir xl) * 10)]"
    by (simp add: AcDbXline_geometricExtents_def setFromPoints_def add_def multiplyScalar_def add.commute)
  have ex1: "snd (AcDbRay_draw db (AcDbRay_set_unitDir (AcGePoint3d 1 0 0) (AcDbRay_new oid))) =
     Lines [AcGePoint3d 0 0 0, AcGePoint3d 1000000 0 0]"
    by (simp add: ray_draw AcDbRay_set_unitDir_def AcDbRay_new_def AcDbRay.defs ctor_defs)
  have ex2: "AcDbRay_geometricExtents (AcDbRay_set_unitDir (AcGePoint3d 1 0 0) (AcDbRay_new oid)) =
     AcGeBox3d (AcGePoint3d (- 10) 0 0) (AcGePoint3d 10 0 0)"
    by (simp add: ray_ext AcDbRay_set_unitDir_def AcDbRay_new_def AcDbRay.defs ctor_defs)
  have ex3: "snd (AcDbXline_draw db (AcDbXline_set_unitDir (AcGePoint3d 1 0 0) (AcDbXline_new oid))) =
     Lines [AcGePoint3d (- 1000000) 0 0, AcGePoint3d 1000000 0 0]"
    by (simp add: xl_draw AcDbXline_set_unitDir_def AcDbXline_new_def AcDbXline.defs ctor_defs)
  have ex4: "AcDbXline_geometricExtents (AcDbXline_set_unitDir (AcGePoint3d 1 0 0) (AcDbXline_new oid)) =
     AcGeBox3d (AcGePoint3d (- 10) 0 0) (AcGePoint3d 10 0 0)"
    by (simp add: xl_ext AcDbXline_set_unitDir_def AcDbXline_new_def AcDbXline.defs ctor_defs)
  show ?thesis
    using ray_draw [of r] xl_draw [of xl] ray_ext [of r] ray_span xl_ext [of xl] xl_span ex1 ex2 ex3 ex4
    by blast
qed

subsection \<open>AcDbLine: mid point, extents and grip points\<close>

text \<open>
  C9. For the line constructed with start point (0,0,0) and end point (10,0,0):
  \<^verbatim>\<open>midPoint\<close> is (5,0,0), \<^verbatim>\<open>geometricExtents\<close> is the box from (0,0,0) to (10,0,0), and
  \<^verbatim>\<open>subGetGripPoints()\<close> returns the mid point, the start point and the end point in that
  order (as it does for every line).
\<close>

theorem line_midpoint_extents_grips:
  "AcDbLine_midPoint (AcDbLine_new oid (AcGePoint3d 0 0 0) (AcGePoint3d 10 0 0)) = AcGePoint3d 5 0 0
   \<and> AcDbLine_geometricExtents (AcDbLine_new oid (AcGePoint3d 0 0 0) (AcGePoint3d 10 0 0)) =
       AcGeBox3d (AcGePoint3d 0 0 0) (AcGePoint3d 10 0 0)
   \<and> AcDbLine_subGetGripPoints (AcDbLine_new oid (AcGePoint3d 0 0 0) (AcGePoint3d 10 0 0)) =
       [AcGePoint3d 5 0 0, AcGePoint3d 0 0 0, AcGePoint3d 10 0 0]
   \<and> AcDbLine_subGetGripPoints l = [AcDbLine_midPoint l, AcDbLine_startPoint l, AcDbLine_endPoint l]"
  by (simp add: AcDbLine_midPoint_def AcDbLine_geometricExtents_def AcDbLine_subGetGripPoints_def
      AcDbLine_startPoint_def AcDbLine_endPoint_def AcDbLine_new_def AcDbLine.defs ctor_defs
      AcGeLine3d_midPoint_def AcGeLine3d_box_def setFromPoints_def)

subsection \<open>Object-snap points\<close>

text \<open>
  C4 as stated (one call appends zero or one point) fails for the end point mode: on
  the line from (0,0,0) to (10,0,0) and an empty array, the call leaves the two end points
  in the array.
\<close>

theorem osnap_at_most_one_counterexample:
  "length (AcDbLine_subGetOsnapPoints (\<lambda>l p. p) (\<lambda>l p. p)
             (AcDbLine_new ''line'' (AcGePoint3d 0 0 0) (AcGePoint3d 10 0 0))
             EndPoint (AcGePoint3d 3 4 0) (AcGePoint3d 0 0 0) []) = 2
   \<and> AcDbLine_subGetOsnapPoints (\<lambda>l p. p) (\<lambda>l p. p)
             (AcDbLine_new ''line'' (AcGePoint3d 0 0 0) (AcGePoint3d 10 0 0))
             EndPoint (AcGePoint3d 3 4 0) (AcGePoint3d 0 0 0) []
       = [AcGePoint3d 0 0 0, AcGePoint3d 10 0 0]"
  by (simp add: AcDbLine_subGetOsnapPoints_def AcDbLine_startPoint_def AcDbLine_endPoint_def
      AcDbLine_new_def AcDbLine.defs ctor_defs)

text \<open>
  C4, amended. One call of \<^verbatim>\<open>AcDbLine.subGetOsnapPoints\<close> returns normally and appends to
  the caller's array: the start point and the end point for \<^verbatim>\<open>EndPoint\<close>; the mid point
  for \<^verbatim>\<open>MidPoint\<close>; the engine's projection of the pick point for \<^verbatim>\<open>Nearest\<close>; the
  engine's foot of the perpendicular for \<^verbatim>\<open>Perpendicular\<close>; the start point for
  \<^verbatim>\<open>Tangent\<close>; nothing for any other mode. So it appends at most two points, two exactly
  for \<^verbatim>\<open>EndPoint\<close>, one exactly for the four other named modes, and none exactly for
  an unknown mode. The default of \<^verbatim>\<open>AcDbEntity\<close> appends nothing for every mode.
\<close>

theorem osnap_points_per_mode:
  "AcDbLine_subGetOsnapPoints project perpPoint l mode pick lastPoint sp =
     sp @ (case mode of
             EndPoint \<Rightarrow> [AcDbLine_startPoint l, AcDbLine_endPoint l]
           | MidPoint \<Rightarrow> [AcDbLine_midPoint l]
           | Nearest \<Rightarrow> [project (geo l) pick]
           | Perpendicular \<Rightarrow> [perpPoint (geo l) pick]
           | Tangent \<Rightarrow> [AcDbLine_startPoint l]
           | OtherMode n \<Rightarrow> [])
   \<and> length (AcDbLine_subGetOsnapPoints project perpPoint l mode pick lastPoint sp) \<le> length sp + 2
   \<and> (length (AcDbLine_subGetOsnapPoints project perpPoint l mode pick lastPoint sp) = length sp + 2)
        = (mode = EndPoint)
   \<and> (length (AcDbLine_subGetOsnapPoints project perpPoint l mode pick lastPoint sp) = length sp + 1)
        = (mode \<in> {MidPoint, Nearest, Perpendicular, Tangent})
   \<and> (AcDbLine_subGetOsnapPoints project perpPoint l mode pick lastPoint sp = sp)
        = (\<exists>n. mode = OtherMode n)
   \<and> AcDbEntity_subGetOsnapPoints mode pick lastPoint sp = sp"
  by (cases mode) (simp_all add: AcDbLine_subGetOsnapPoints_def AcDbEntity_subGetOsnapPoints_def)

subsection \<open>AcDbEntity: the resolved colour and line style of a default entity\<close>

text \<open>
  C3 as stated fails twice. With a layer "0" whose colour is red in the layer table,
  a default entity resolves to red although the database's default colour is white; and
  with no layer "0" in the layer table, the type of its line style is "UserSpecified".
\<close>

theorem default_entity_style_counterexample:
  "rgbColor
     \<lparr>cecolor = \<lparr>isByLayer = False, isByBlock = False, RGB = Some 0xffffff\<rparr>,
      layerTable = [''0'' \<mapsto> \<lparr>AcDbLayerTableRecord.color = \<lparr>isByLayer = False, isByBlock = False, RGB = Some 0xff0000\<rparr>,
                              AcDbLayerTableRecord.linetype = ''Continuous''\<rparr>],
      linetypeTable = Map.empty\<rparr>
     (AcDbEntity_new ''e'') = 0xff0000
   \<and> type (lineStyle
       \<lparr>cecolor = \<lparr>isByLayer = False, isByBlock = False, RGB = Some 0xffffff\<rparr>,
        layerTable = Map.empty, linetypeTable = Map.empty\<rparr>
       (AcDbEntity_new ''e'')) = ''UserSpecified''"
  by (simp add: rgbColor_def getLayerColor_def lineStyle_def getLineType_def AcDbEntity_new_def
      AcCmColor_new_def ByLayer_def DEFAULT_LINE_TYPE_def AcGiBaseLineStyle.defs AcGiLineStyle.defs)

lemma lineStyle_type: "type (lineStyle db e) = fst (getLineType db e)"
  by (simp add: lineStyle_def AcGiBaseLineStyle.defs AcGiLineStyle.defs split: prod.splits option.splits)

text \<open>
  C3, amended. For every entity whose layer, colour and linetype are the constructor
  defaults (layer "0", colour ByLayer, linetype ByLayer) and every database:
  \<^verbatim>\<open>rgbColor\<close> is the RGB value of the colour of layer "0" when the layer table has that
  layer and its colour has an RGB value, and otherwise the RGB value of the database's
  default colour \<^verbatim>\<open>cecolor\<close>, or white \<^verbatim>\<open>0xFFFFFF\<close> when that has none;
  \<^verbatim>\<open>lineStyle.type\<close> is "ByLayer" when the layer table has layer "0" with a non-empty
  linetype name, and "UserSpecified" otherwise. Both getters are total: they return a value
  for every database. In particular \<^verbatim>\<open>rgbColor\<close> is white when neither the layer nor
  \<^verbatim>\<open>cecolor\<close> yields an RGB value.
\<close>

theorem default_entity_style:
  assumes "layer e = ''0''" and "AcDbEntity.color e = AcCmColor_new" and "lineType e = ByLayer"
  shows "rgbColor db e =
           (case layerTable db ''0'' of
              Some l \<Rightarrow>
                (case RGB (AcDbLayerTableRecord.color l) of
                   Some v \<Rightarrow> v
                 | None \<Rightarrow> (case RGB (cecolor db) of Some v \<Rightarrow> v | None \<Rightarrow> 0xffffff))
            | None \<Rightarrow> (case RGB (cecolor db) of Some v \<Rightarrow> v | None \<Rightarrow> 0xffffff))
       \<and> type (lineStyle db e) =
           (case layerTable db ''0'' of
              Some l \<Rightarrow> if AcDbLayerTableRecord.linetype l \<noteq> [] then ''ByLayer'' else ''UserSpecified''
            | None \<Rightarrow> ''UserSpecified'')
       \<and> (RGB (cecolor db) = None
            \<and> (layerTable db ''0'' = None \<or> RGB (AcDbLayerTableRecord.color (the (layerTable db ''0''))) = None)
            \<longrightarrow> rgbColor db e = 0xffffff)"
  using assms
  by (auto simp add: rgbColor_def getLayerColor_def lineStyle_type getLineType_def AcCmColor_new_def
      split: option.splits)

text \<open>
  The witness: the new entity in a database whose layer "0" is red with linetype
  "Continuous", and in a database with no layer and no RGB value for \<^verbatim>\<open>cecolor\<close>.
\<close>

theorem default_entity_style_witness:
  "rgbColor
     \<lparr>cecolor = \<lparr>isByLayer = False, isByBlock = False, RGB = Some 0xffffff\<rparr>,
      layerTable = [''0'' \<mapsto> \<lparr>AcDbLayerTableRecord.color = \<lparr>isByLayer = False, isByBlock = False, RGB = Some 0xff0000\<rparr>,
                              AcDbLayerTableRecord.linetype = ''Continuous''\<rparr>],
      linetypeTable = Map.empty\<rparr>
     (AcDbEntity_new ''e'') = 0xff0000
   \<and> type (lineStyle
       \<lparr>cecolor = \<lparr>isByLayer = False, isByBlock = False, RGB = Some 0xffffff\<rparr>,
        layerTable = [''0'' \<mapsto> \<lparr>AcDbLayerTableRecord.color = \<lparr>isByLayer = False, isByBlock = False, RGB = Some 0xff0000\<rparr>,
                                AcDbLayerTableRecord.linetype = ''Continuous''\<rparr>],
        linetypeTable = Map.empty\<rparr>
       (AcDbEntity_new ''e'')) = ''ByLayer''
   \<and> rgbColor
       \<lparr>cecolor = \<lparr>isByLayer = True, isByBlock = False, RGB = None\<rparr>,
        layerTable = Map.empty, linetypeTable = Map.empty\<rparr>
       (AcDbEntity_new ''e'') = 0xffffff"
  using
    default_entity_style [of "AcDbEntity_new ''e''"
      "\<lparr>cecolor = \<lparr>isByLayer = False, isByBlock = False, RGB = Some 0xffffff\<rparr>,
        layerTable = [''0'' \<mapsto> \<lparr>AcDbLayerTableRecord.color = \<lparr>isByLayer = False, isByBlock = False, RGB = Some 0xff0000\<rparr>,
                                AcDbLayerTableRecord.linetype = ''Continuous''\<rparr>],
        linetypeTable = Map.empty\<rparr>"]
    default_entity_style [of "AcDbEntity_new ''e''"
      "\<lparr>cecolor = \<lparr>isByLayer = True, isByBlock = False, RGB = None\<rparr>,
        layerTable = Map.empty, linetypeTable = Map.empty\<rparr>"]
  by (simp add: AcDbEntity_new_def)

subsection \<open>AcDbLeader: access to a vertex by index\<close>

text \<open>
  C5 says that \<^verbatim>\<open>vertexAt\<close> and \<^verbatim>\<open>setVertexAt\<close> throw for an index outside
  \<open>[0, numVertices)\<close> and, for an index inside, return the stored vertex and replace it.
  The source has the range test of both methods the wrong way round, and the \<^verbatim>\<open>throw\<close>
  after the \<^verbatim>\<open>if\<close> is reached on every path: \<^verbatim>\<open>vertexAt\<close> throws "The vertex index is
  out of range!" for every index, \<^verbatim>\<open>setVertexAt\<close> throws the same error for an index
  inside the range and a \<^verbatim>\<open>TypeError\<close> outside it. On a leader with one vertex, index 0
  throws in both.
\<close>

theorem leader_vertex_access_always_throws:
  "vertexAt i l = Inl (Error ''The vertex index is out of range!'')
   \<and> setVertexAt i p l =
       (if i < 0 \<or> int (numVertices l) \<le> i then Inl TypeError
        else Inl (Error ''The vertex index is out of range!''))
   \<and> vertexAt 0 (appendVertex (AcGePoint3d 1 2 3) (AcDbLeader_new oid)) =
       Inl (Error ''The vertex index is out of range!'')
   \<and> setVertexAt 0 (AcGePoint3d 4 5 6) (appendVertex (AcGePoint3d 1 2 3) (AcDbLeader_new oid)) =
       Inl (Error ''The vertex index is out of range!'')"
  by (simp add: vertexAt_def setVertexAt_def numVertices_def appendVertex_def)

subsection \<open>AcDbLeader: the lazily rebuilt spline\<close>









subsection \<open>AcDbRasterImage: the boundary path\<close>

lemmas img_defs = AcDbRasterImage_new_def AcDbRasterImage_set_width_def AcDbRasterImage_set_height_def
  AcDbRasterImage_set_position_def AcDbRasterImage_set_rotation_def AcDbRasterImage_set_clipBoundary_def
  AcDbRasterImage_set_isClipped_def AcDbRasterImage.defs

lemma upt_1_4: "[Suc 0..<4] = [Suc 0, Suc (Suc 0), Suc (Suc (Suc 0))]"
  by (simp add: upt_rec)

lemma rotate_loop:
  "foldl (\<lambda>pts index. pts[index := f (pts ! index)]) [a, b, c, d] [Suc 0..<4] = [a, f b, f c, f d]"
  by (simp add: upt_1_4)

lemma boundaryPath_unclipped:
  "\<not> (isClipped img \<and> 4 \<le> length (clipBoundary img)) \<Longrightarrow>
   boundaryPath img =
     (let pos = AcDbRasterImage.position img;
          v1 = AcGePoint3d (x3 pos + AcDbRasterImage.width img) (y3 pos) (z3 pos);
          v2 = AcGePoint3d (x3 pos + AcDbRasterImage.width img) (y3 pos + AcDbRasterImage.height img) (z3 pos);
          v3 = AcGePoint3d (x3 pos) (y3 pos + AcDbRasterImage.height img) (z3 pos);
          pivot = AcGePoint2d (x3 v1) (y3 v1);
          r = AcDbRasterImage.rotation img
      in if 0 < r
         then [pos, rotateVertex pivot r v1, rotateVertex pivot r v2, rotateVertex pivot r v3, pos]
         else [pos, v1, v2, v3, pos])"
  by (auto simp add: boundaryPath_def Let_def rotate_loop)

lemma rotateVertex_pivot: "rotateVertex (AcGePoint2d (x3 v) (y3 v)) r v = v"
  by (simp add: rotateVertex_def rotateAround_def)

lemma min2_foldl_expand:
  "min2 (foldl (\<lambda>b p. expandByPoint2d p b) (AcGeBox2d lo hi) ps) =
     AcGePoint2d (Min (insert (x2 lo) (x2 ` set ps))) (Min (insert (y2 lo) (y2 ` set ps)))"
proof (induction ps arbitrary: lo hi)
  case Nil
  then show ?case by simp
next
  case (Cons p ps)
  have "Min (insert (min (x2 lo) (x2 p)) (x2 ` set ps)) = Min (insert (x2 lo) (insert (x2 p) (x2 ` set ps)))"
    by (cases "ps = []") (simp_all add: min.assoc)
  moreover have "Min (insert (min (y2 lo) (y2 p)) (y2 ` set ps)) = Min (insert (y2 lo) (insert (y2 p) (y2 ` set ps)))"
    by (cases "ps = []") (simp_all add: min.assoc)
  ultimately show ?case
    by (simp add: Cons.IH)
qed

lemma min2_setFromPoints2d:
  "ps \<noteq> [] \<Longrightarrow>
   min2 (setFromPoints2d ps) = AcGePoint2d (Min (x2 ` set ps)) (Min (y2 ` set ps))"
  by (cases ps) (simp_all add: setFromPoints2d_def min2_foldl_expand)

lemma boundaryPath_clipped:
  assumes "isClipped img" "4 \<le> length (clipBoundary img)"
  shows "boundaryPath img =
     map (\<lambda>p. AcGePoint3d
                 (x2 p * AcDbRasterImage.width img
                    + (x3 (AcDbRasterImage.position img)
                         - Min (x2 ` set (clipBoundary img)) * AcDbRasterImage.width img))
                 (y2 p * AcDbRasterImage.height img
                    + (y3 (AcDbRasterImage.position img)
                         - Min (y2 ` set (clipBoundary img)) * AcDbRasterImage.height img))
                 (z3 (AcDbRasterImage.position img)))
         (clipBoundary img)"
proof -
  have ne: "clipBoundary img \<noteq> []" using assms(2) by auto
  have gt: "3 < length (clipBoundary img)" using assms(2) by simp
  show ?thesis
    using assms(1) gt by (simp add: boundaryPath_def Let_def min2_setFromPoints2d [OF ne])
qed

text \<open>
  C1 as stated fails for a negative rotation: the source rotates the rectangle only when
  \<^verbatim>\<open>this._rotation > 0\<close>. With width 100, height 50, position (0,0,0) and rotation
  \<open>- pi\<close> the source returns the unrotated rectangle, while the rectangle with the
  vertices 1..3 rotated about vertex 1 by that (nonzero) angle has its third vertex at
  (100,-50,0).
\<close>

theorem raster_boundaryPath_counterexample:
  "boundaryPath (AcDbRasterImage_set_rotation (- pi)
      (AcDbRasterImage_set_width 100 (AcDbRasterImage_set_height 50 (AcDbRasterImage_new ''img''))))
     = [AcGePoint3d 0 0 0, AcGePoint3d 100 0 0, AcGePoint3d 100 50 0, AcGePoint3d 0 50 0, AcGePoint3d 0 0 0]
   \<and> boundaryPath_spec (AcDbRasterImage_set_rotation (- pi)
      (AcDbRasterImage_set_width 100 (AcDbRasterImage_set_height 50 (AcDbRasterImage_new ''img''))))
     = [AcGePoint3d 0 0 0, AcGePoint3d 100 0 0, AcGePoint3d 100 (- 50) 0, AcGePoint3d 200 (- 50) 0, AcGePoint3d 0 0 0]
   \<and> boundaryPath (AcDbRasterImage_set_rotation (- pi)
      (AcDbRasterImage_set_width 100 (AcDbRasterImage_set_height 50 (AcDbRasterImage_new ''img''))))
     \<noteq> boundaryPath_spec (AcDbRasterImage_set_rotation (- pi)
      (AcDbRasterImage_set_width 100 (AcDbRasterImage_set_height 50 (AcDbRasterImage_new ''img''))))"
proof -
  let ?img = "AcDbRasterImage_set_rotation (- pi)
      (AcDbRasterImage_set_width 100 (AcDbRasterImage_set_height 50 (AcDbRasterImage_new ''img'')))"
  have a: "boundaryPath ?img =
      [AcGePoint3d 0 0 0, AcGePoint3d 100 0 0, AcGePoint3d 100 50 0, AcGePoint3d 0 50 0, AcGePoint3d 0 0 0]"
    by (simp add: boundaryPath_unclipped img_defs ctor_defs Let_def)
  have b: "boundaryPath_spec ?img =
      [AcGePoint3d 0 0 0, AcGePoint3d 100 0 0, AcGePoint3d 100 (- 50) 0, AcGePoint3d 200 (- 50) 0, AcGePoint3d 0 0 0]"
    by (simp add: boundaryPath_spec_def img_defs ctor_defs rotateVertex_def rotateAround_def Let_def)
  have c: "boundaryPath ?img \<noteq> boundaryPath_spec ?img"
    unfolding a b by simp
  from a b c show ?thesis by (intro conjI)
qed

text \<open>
  C1, amended. For every raster image:
  \<^item> when \<^verbatim>\<open>isClipped\<close> is true and the clip boundary has at least 4 points,
    \<^verbatim>\<open>boundaryPath()\<close> is the list of the clip boundary vertices, each \<open>(x, y)\<close> mapped to
    \<open>(x * width + tx, y * height + ty, position.z)\<close> with
    \<open>tx = position.x - xmin * width\<close> and \<open>ty = position.y - ymin * height\<close>, where
    \<open>(xmin, ymin)\<close>, the smallest x and the smallest y of the boundary points, is the
    minimum corner of their bounding box (so that corner lands on the insertion point);
  \<^item> otherwise, with a rotation greater than zero, it is the insertion point, the corner
    (x + width, y), the corners (x + width, y + height) and (x, y + height) rotated about
    the corner (x + width, y), that is, about vertex 1 and not vertex 0, and the insertion
    point again;
  \<^item> otherwise, with a rotation that is zero or negative, it is the unrotated rectangle,
    closed by the insertion point;
  \<^item> it agrees with the path the spec words whenever the image is clipped so or the
    rotation is not negative;
  \<^item> the rotation of a vertex about a centre is the usual one, and leaves z alone;
  \<^item> with width 100, height 50, position (0,0,0) and rotation 0 it is
    [(0,0,0), (100,0,0), (100,50,0), (0,50,0), (0,0,0)].
\<close>

theorem raster_boundaryPath:
  "(isClipped img \<and> 4 \<le> length (clipBoundary img) \<longrightarrow>
      boundaryPath img =
        map (\<lambda>p. AcGePoint3d
                    (x2 p * AcDbRasterImage.width img
                       + (x3 (AcDbRasterImage.position img)
                            - Min (x2 ` set (clipBoundary img)) * AcDbRasterImage.width img))
                    (y2 p * AcDbRasterImage.height img
                       + (y3 (AcDbRasterImage.position img)
                            - Min (y2 ` set (clipBoundary img)) * AcDbRasterImage.height img))
                    (z3 (AcDbRasterImage.position img)))
            (clipBoundary img)
      \<and> min2 (setFromPoints2d (clipBoundary img)) =
          AcGePoint2d (Min (x2 ` set (clipBoundary img))) (Min (y2 ` set (clipBoundary img))))
   \<and> (\<not> (isClipped img \<and> 4 \<le> length (clipBoundary img)) \<and> 0 < AcDbRasterImage.rotation img \<longrightarrow>
      boundaryPath img =
        [AcDbRasterImage.position img,
         AcGePoint3d (x3 (AcDbRasterImage.position img) + AcDbRasterImage.width img)
                     (y3 (AcDbRasterImage.position img)) (z3 (AcDbRasterImage.position img)),
         rotateVertex
           (AcGePoint2d (x3 (AcDbRasterImage.position img) + AcDbRasterImage.width img)
                        (y3 (AcDbRasterImage.position img)))
           (AcDbRasterImage.rotation img)
           (AcGePoint3d (x3 (AcDbRasterImage.position img) + AcDbRasterImage.width img)
                        (y3 (AcDbRasterImage.position img) + AcDbRasterImage.height img)
                        (z3 (AcDbRasterImage.position img))),
         rotateVertex
           (AcGePoint2d (x3 (AcDbRasterImage.position img) + AcDbRasterImage.width img)
                        (y3 (AcDbRasterImage.position img)))
           (AcDbRasterImage.rotation img)
           (AcGePoint3d (x3 (AcDbRasterImage.position img))
                        (y3 (AcDbRasterImage.position img) + AcDbRasterImage.height img)
                        (z3 (AcDbRasterImage.position img))),
         AcDbRasterImage.position img])
   \<and> (\<not> (isClipped img \<and> 4 \<le> length (clipBoundary img)) \<and> AcDbRasterImage.rotation img \<le> 0 \<longrightarrow>
      boundaryPath img =
        [AcDbRasterImage.position img,
         AcGePoint3d (x3 (AcDbRasterImage.position img) + AcDbRasterImage.width img)
                     (y3 (AcDbRasterImage.position img)) (z3 (AcDbRasterImage.position img)),
         AcGePoint3d (x3 (AcDbRasterImage.position img) + AcDbRasterImage.width img)
                     (y3 (AcDbRasterImage.position img) + AcDbRasterImage.height img)
                     (z3 (AcDbRasterImage.position img)),
         AcGePoint3d (x3 (AcDbRasterImage.position img))
                     (y3 (AcDbRasterImage.position img) + AcDbRasterImage.height img)
                     (z3 (AcDbRasterImage.position img)),
         AcDbRasterImage.position img])
   \<and> ((isClipped img \<and> 4 \<le> length (clipBoundary img)) \<or> 0 \<le> AcDbRasterImage.rotation img \<longrightarrow>
      boundaryPath img = boundaryPath_spec img)
   \<and> rotateVertex (AcGePoint2d cx cy) r (AcGePoint3d px py pz) =
       AcGePoint3d ((px - cx) * cos r - (py - cy) * sin r + cx)
                   ((px - cx) * sin r + (py - cy) * cos r + cy) pz
   \<and> boundaryPath (AcDbRasterImage_set_width 100 (AcDbRasterImage_set_height 50 (AcDbRasterImage_new oid)))
     = [AcGePoint3d 0 0 0, AcGePoint3d 100 0 0, AcGePoint3d 100 50 0, AcGePoint3d 0 50 0, AcGePoint3d 0 0 0]"
proof -
  let ?C = "isClipped img \<and> 4 \<le> length (clipBoundary img)"
  have clipped: "?C \<longrightarrow>
      boundaryPath img =
        map (\<lambda>p. AcGePoint3d
                    (x2 p * AcDbRasterImage.width img
                       + (x3 (AcDbRasterImage.position img)
                            - Min (x2 ` set (clipBoundary img)) * AcDbRasterImage.width img))
                    (y2 p * AcDbRasterImage.height img
                       + (y3 (AcDbRasterImage.position img)
                            - Min (y2 ` set (clipBoundary img)) * AcDbRasterImage.height img))
                    (z3 (AcDbRasterImage.position img)))
            (clipBoundary img)
      \<and> min2 (setFromPoints2d (clipBoundary img)) =
          AcGePoint2d (Min (x2 ` set (clipBoundary img))) (Min (y2 ` set (clipBoundary img)))"
  proof
    assume c: ?C
    then have "clipBoundary img \<noteq> []" by auto
    then show "boundaryPath img =
        map (\<lambda>p. AcGePoint3d
                    (x2 p * AcDbRasterImage.width img
                       + (x3 (AcDbRasterImage.position img)
                            - Min (x2 ` set (clipBoundary img)) * AcDbRasterImage.width img))
                    (y2 p * AcDbRasterImage.height img
                       + (y3 (AcDbRasterImage.position img)
                            - Min (y2 ` set (clipBoundary img)) * AcDbRasterImage.height img))
                    (z3 (AcDbRasterImage.position img)))
            (clipBoundary img)
      \<and> min2 (setFromPoints2d (clipBoundary img)) =
          AcGePoint2d (Min (x2 ` set (clipBoundary img))) (Min (y2 ` set (clipBoundary img)))"
      using c boundaryPath_clipped [of img] min2_setFromPoints2d [of "clipBoundary img"] by blast
  qed
  have pos: "\<not> ?C \<and> 0 < AcDbRasterImage.rotation img \<longrightarrow>
      boundaryPath img =
        [AcDbRasterImage.position img,
         AcGePoint3d (x3 (AcDbRasterImage.position img) + AcDbRasterImage.width img)
                     (y3 (AcDbRasterImage.position img)) (z3 (AcDbRasterImage.position img)),
         rotateVertex
           (AcGePoint2d (x3 (AcDbRasterImage.position img) + AcDbRasterImage.width img)
                        (y3 (AcDbRasterImage.position img)))
           (AcDbRasterImage.rotation img)
           (AcGePoint3d (x3 (AcDbRasterImage.position img) + AcDbRasterImage.width img)
                        (y3 (AcDbRasterImage.position img) + AcDbRasterImage.height img)
                        (z3 (AcDbRasterImage.position img))),
         rotateVertex
           (AcGePoint2d (x3 (AcDbRasterImage.position img) + AcDbRasterImage.width img)
                        (y3 (AcDbRasterImage.position img)))
           (AcDbRasterImage.rotation img)
           (AcGePoint3d (x3 (AcDbRasterImage.position img))
                        (y3 (AcDbRasterImage.position img) + AcDbRasterImage.height img)
                        (z3 (AcDbRasterImage.position img))),
         AcDbRasterImage.position img]"
    using rotateVertex_pivot
      [of "AcGePoint3d (x3 (AcDbRasterImage.position img) + AcDbRasterImage.width img)
                       (y3 (AcDbRasterImage.position img)) (z3 (AcDbRasterImage.position img))"]
    by (simp add: boundaryPath_unclipped Let_def)
  have nonpos: "\<not> ?C \<and> AcDbRasterImage.rotation img \<le> 0 \<longrightarrow>
      boundaryPath img =
        [AcDbRasterImage.position img,
         AcGePoint3d (x3 (AcDbRasterImage.position img) + AcDbRasterImage.width img)
                     (y3 (AcDbRasterImage.position img)) (z3 (AcDbRasterImage.position img)),
         AcGePoint3d (x3 (AcDbRasterImage.position img) + AcDbRasterImage.width img)
                     (y3 (AcDbRasterImage.position img) + AcDbRasterImage.height img)
                     (z3 (AcDbRasterImage.position img)),
         AcGePoint3d (x3 (AcDbRasterImage.position img))
                     (y3 (AcDbRasterImage.position img) + AcDbRasterImage.height img)
                     (z3 (AcDbRasterImage.position img)),
         AcDbRasterImage.position img]"
    by (simp add: boundaryPath_unclipped Let_def)
  have spec: "?C \<or> 0 \<le> AcDbRasterImage.rotation img \<longrightarrow> boundaryPath img = boundaryPath_spec img"
  proof
    assume h: "?C \<or> 0 \<le> AcDbRasterImage.rotation img"
    show "boundaryPath img = boundaryPath_spec img"
    proof (cases ?C)
      case True
      then have "3 < length (clipBoundary img)" by simp
      with True show ?thesis
        by (simp add: boundaryPath_def boundaryPath_spec_def Let_def)
    next
      case False
      with h have "0 \<le> AcDbRasterImage.rotation img" by blast
      with False show ?thesis
        by (auto simp add: boundaryPath_unclipped boundaryPath_spec_def Let_def)
    qed
  qed
  have rot: "rotateVertex (AcGePoint2d cx cy) r (AcGePoint3d px py pz) =
       AcGePoint3d ((px - cx) * cos r - (py - cy) * sin r + cx)
                   ((px - cx) * sin r + (py - cy) * cos r + cy) pz"
    by (simp add: rotateVertex_def rotateAround_def Let_def)
  have ex: "boundaryPath (AcDbRasterImage_set_width 100 (AcDbRasterImage_set_height 50 (AcDbRasterImage_new oid)))
     = [AcGePoint3d 0 0 0, AcGePoint3d 100 0 0, AcGePoint3d 100 50 0, AcGePoint3d 0 50 0, AcGePoint3d 0 0 0]"
    by (simp add: boundaryPath_unclipped img_defs ctor_defs Let_def)
  from clipped pos nonpos spec rot ex show ?thesis by (intro conjI)
qed

text \<open>
  The witness: an image clipped to the middle of its pixel square, an unclipped image
  rotated by a quarter turn, and an unclipped image with the rotation \<open>- pi\<close>.
\<close>

theorem raster_boundaryPath_witness:
  "boundaryPath
     (AcDbRasterImage_set_isClipped True
       (AcDbRasterImage_set_clipBoundary
          [AcGePoint2d (1/4) (1/4), AcGePoint2d (3/4) (1/4), AcGePoint2d (3/4) (3/4), AcGePoint2d (1/4) (3/4)]
          (AcDbRasterImage_set_position (AcGePoint3d 10 20 0)
            (AcDbRasterImage_set_width 100 (AcDbRasterImage_set_height 50 (AcDbRasterImage_new ''img''))))))
     = [AcGePoint3d 10 20 0, AcGePoint3d 60 20 0, AcGePoint3d 60 45 0, AcGePoint3d 10 45 0]
   \<and> boundaryPath (AcDbRasterImage_set_rotation (pi / 2)
        (AcDbRasterImage_set_width 100 (AcDbRasterImage_set_height 50 (AcDbRasterImage_new ''img''))))
     = [AcGePoint3d 0 0 0, AcGePoint3d 100 0 0, AcGePoint3d 50 0 0, AcGePoint3d 50 (- 100) 0, AcGePoint3d 0 0 0]
   \<and> boundaryPath (AcDbRasterImage_set_rotation (- pi)
        (AcDbRasterImage_set_width 100 (AcDbRasterImage_set_height 50 (AcDbRasterImage_new ''img''))))
     = [AcGePoint3d 0 0 0, AcGePoint3d 100 0 0, AcGePoint3d 100 50 0, AcGePoint3d 0 50 0, AcGePoint3d 0 0 0]"
proof -
  let ?clip = "AcDbRasterImage_set_isClipped True
       (AcDbRasterImage_set_clipBoundary
          [AcGePoint2d (1/4) (1/4), AcGePoint2d (3/4) (1/4), AcGePoint2d (3/4) (3/4), AcGePoint2d (1/4) (3/4)]
          (AcDbRasterImage_set_position (AcGePoint3d 10 20 0)
            (AcDbRasterImage_set_width 100 (AcDbRasterImage_set_height 50 (AcDbRasterImage_new ''img'')))))"
  let ?rot = "AcDbRasterImage_set_rotation (pi / 2)
        (AcDbRasterImage_set_width 100 (AcDbRasterImage_set_height 50 (AcDbRasterImage_new ''img'')))"
  let ?neg = "AcDbRasterImage_set_rotation (- pi)
        (AcDbRasterImage_set_width 100 (AcDbRasterImage_set_height 50 (AcDbRasterImage_new ''img'')))"
  have hc: "isClipped ?clip \<and> 4 \<le> length (clipBoundary ?clip)"
    by (simp add: img_defs ctor_defs)
  have hr: "\<not> (isClipped ?rot \<and> 4 \<le> length (clipBoundary ?rot)) \<and> 0 < AcDbRasterImage.rotation ?rot"
    by (simp add: img_defs ctor_defs)
  have hn: "\<not> (isClipped ?neg \<and> 4 \<le> length (clipBoundary ?neg)) \<and> AcDbRasterImage.rotation ?neg \<le> 0"
    by (simp add: img_defs ctor_defs)
  have a: "boundaryPath ?clip =
      [AcGePoint3d 10 20 0, AcGePoint3d 60 20 0, AcGePoint3d 60 45 0, AcGePoint3d 10 45 0]"
    using raster_boundaryPath [where img = "?clip"] hc
    by (simp add: img_defs ctor_defs)
  have b: "boundaryPath ?rot =
      [AcGePoint3d 0 0 0, AcGePoint3d 100 0 0, AcGePoint3d 50 0 0, AcGePoint3d 50 (- 100) 0, AcGePoint3d 0 0 0]"
    using raster_boundaryPath [where img = "?rot"] hr
    by (simp add: img_defs ctor_defs rotateVertex_def rotateAround_def)
  have c: "boundaryPath ?neg =
      [AcGePoint3d 0 0 0, AcGePoint3d 100 0 0, AcGePoint3d 100 50 0, AcGePoint3d 0 50 0, AcGePoint3d 0 0 0]"
    using raster_boundaryPath [where img = "?neg"] hn
    by (simp add: img_defs ctor_defs)
  from a b c show ?thesis by (intro conjI)
qed

subsection \<open>Property reflection: typed setter, then accessor get\<close>













end
